theory Spec2Isabelle
  imports Main "HOL-Library.Word" "HOL-Library.Sublist"
begin

unbundle bit_operations_syntax

section \<open>The wrapper around the camera SDK\<close>

text \<open>
  The header \<^verbatim>\<open>daheng_gx.hpp\<close> wraps two vendor libraries: the camera interface
  (\<^verbatim>\<open>GxIAPI.h\<close>) and the image processing library (\<^verbatim>\<open>DxImageProc.h\<close>). Neither vendor
  header is part of the repository, so the vendor's functions and the numeric values of
  its constants are parameters of the model: a record holds one implementation per native
  function, acting on a hidden vendor state \<open>'v\<close>. Every native invocation is written
  to a trace, so that what a wrapper function invokes, in which order and with which
  arguments, can be stated.
\<close>

subsection \<open>Values\<close>

type_synonym GX_STATUS = "32 word"        \<comment> \<open>\<^verbatim>\<open>int32_t\<close>\<close>
type_synonym VxInt32 = "32 word"
type_synonym GX_DEV_HANDLE = nat          \<comment> \<open>\<^verbatim>\<open>void*\<close>; the null handle is 0\<close>
type_synonym pointer = nat                \<comment> \<open>an address; \<^verbatim>\<open>nullptr\<close> is 0\<close>
type_synonym double = "64 word"           \<comment> \<open>the bit pattern; doubles are only copied\<close>

text \<open>The feature and command identifiers that the wrapper names.\<close>

datatype GX_FEATURE_ID =
    GX_ENUM_DEVICE_LINK_THROUGHPUT_LIMIT_MODE
  | GX_INT_TIMESTAMP_TICK_FREQUENCY
  | GX_INT_TIMESTAMP_LATCH_VALUE
  | GX_COMMAND_TIMESTAMP_LATCH
  | GX_COMMAND_TIMESTAMP_RESET
  | GX_COMMAND_TIMESTAMP_LATCH_RESET
  | GX_ENUM_PIXEL_FORMAT
  | GX_INT_PAYLOAD_SIZE
  | GX_ENUM_TRIGGER_MODE
  | GX_ENUM_TRIGGER_SOURCE
  | GX_ENUM_TRIGGER_SWITCH
  | GX_FLOAT_TRIGGER_FILTER_RAISING
  | GX_FLOAT_TRIGGER_FILTER_FALLING
  | GX_FLOAT_TRIGGER_DELAY
  | GX_FLOAT_EXPOSURE_TIME
  | GX_FLOAT_EXPOSURE_DELAY
  | GX_ENUM_EXPOSURE_MODE
  | GX_ENUM_EXPOSURE_AUTO
  | GX_ENUM_GAIN_AUTO
  | GX_FLOAT_GAIN
  | GX_ENUM_GAIN_SELECTOR
  | GX_FLOAT_BALANCE_RATIO
  | GX_ENUM_BALANCE_RATIO_SELECTOR
  | GX_DS_INT_STREAM_TRANSFER_SIZE
  | GX_COMMAND_DEVICE_RESET
  | GX_COMMAND_TRIGGER_SOFTWARE

datatype GX_OPEN_MODE = GX_OPEN_SN | GX_OPEN_IP | GX_OPEN_MAC | GX_OPEN_INDEX | GX_OPEN_USERID

datatype GX_ACCESS_MODE = GX_ACCESS_READONLY | GX_ACCESS_CONTROL | GX_ACCESS_EXCLUSIVE

record GX_OPEN_PARAM =
  pszContent :: string      \<comment> \<open>the characters the pointer refers to\<close>
  openMode :: GX_OPEN_MODE
  accessMode :: GX_ACCESS_MODE

subsection \<open>Exceptions\<close>

text \<open>
  \<open>Exception ev what\<close> is \<^verbatim>\<open>gx::Exception{ev, what}\<close>; the others are the standard
  exceptions the header throws.
\<close>

datatype exn =
    Exception GX_STATUS string
  | Invalid_argument string
  | Logic_error string
  | Runtime_error string
  | Bad_alloc

type_synonym ('s, 'a) prog = "'s \<Rightarrow> (exn + 'a) \<times> 's"

definition return :: "'a \<Rightarrow> ('s, 'a) prog" where
  "return x = (\<lambda>s. (Inr x, s))"

definition throw :: "exn \<Rightarrow> ('s, 'a) prog" where
  "throw e = (\<lambda>s. (Inl e, s))"

definition bind :: "('s, 'a) prog \<Rightarrow> ('a \<Rightarrow> ('s, 'b) prog) \<Rightarrow> ('s, 'b) prog" where
  "bind m f = (\<lambda>s. case m s of (Inl e, s') \<Rightarrow> (Inl e, s') | (Inr x, s') \<Rightarrow> f x s')"

definition returns :: "(exn + 'a) \<Rightarrow> bool" where
  "returns r = (case r of Inl _ \<Rightarrow> False | Inr _ \<Rightarrow> True)"

subsection \<open>Class Open_param\<close>

record Open_param =
  content_' :: string
  handle_' :: GX_OPEN_PARAM

text \<open>The generic constructor: \<open>handle_'\<close> points at the characters of \<open>content_'\<close>.\<close>

definition Open_param_ctor :: "string \<Rightarrow> GX_OPEN_MODE \<Rightarrow> GX_ACCESS_MODE \<Rightarrow> Open_param" where
  "Open_param_ctor c om am =
     \<lparr>content_' = c, handle_' = \<lparr>pszContent = c, openMode = om, accessMode = am\<rparr>\<rparr>"

definition content :: "Open_param \<Rightarrow> string" where
  "content p = content_' p"

definition open_mode :: "Open_param \<Rightarrow> GX_OPEN_MODE" where
  "open_mode p = openMode (handle_' p)"

definition access_mode :: "Open_param \<Rightarrow> GX_ACCESS_MODE" where
  "access_mode p = accessMode (handle_' p)"

text \<open>\<^verbatim>\<open>std::to_string(int)\<close>: the decimal digits, with a minus sign for a negative value.\<close>

fun digits :: "nat \<Rightarrow> string" where
  "digits n = (if n < 10 then [char_of (48 + n)]
               else digits (n div 10) @ [char_of (48 + n mod 10)])"

declare digits.simps [simp del]

definition to_string :: "int \<Rightarrow> string" where
  "to_string i = (if i < 0 then CHR ''-'' # digits (nat (- i)) else digits (nat i))"

definition by_sn :: "string \<Rightarrow> GX_ACCESS_MODE \<Rightarrow> exn + Open_param" where
  "by_sn sn am =
     (if sn = [] then Inl (Invalid_argument ''invalid camera serial number'')
      else Inr (Open_param_ctor sn GX_OPEN_SN am))"

definition by_ip :: "string \<Rightarrow> GX_ACCESS_MODE \<Rightarrow> exn + Open_param" where
  "by_ip ip am =
     (if ip = [] then Inl (Invalid_argument ''invalid camera IP address'')
      else Inr (Open_param_ctor ip GX_OPEN_IP am))"

definition by_mac :: "string \<Rightarrow> GX_ACCESS_MODE \<Rightarrow> exn + Open_param" where
  "by_mac mac am =
     (if mac = [] then Inl (Invalid_argument ''invalid camera MAC address'')
      else Inr (Open_param_ctor mac GX_OPEN_MAC am))"

text \<open>The index is a C++ \<^verbatim>\<open>int\<close>: 32 bits, read as signed.\<close>

definition by_index :: "32 word \<Rightarrow> GX_ACCESS_MODE \<Rightarrow> exn + Open_param" where
  "by_index index am =
     (if \<not> (sint index > 0) then Inl (Invalid_argument ''invalid camera index'')
      else Inr (Open_param_ctor (to_string (sint index)) GX_OPEN_INDEX am))"

definition by_userid :: "string \<Rightarrow> GX_ACCESS_MODE \<Rightarrow> exn + Open_param" where
  "by_userid userid am =
     (if userid = [] then Inl (Invalid_argument ''invalid camera user ID'')
      else Inr (Open_param_ctor userid GX_OPEN_USERID am))"

text \<open>
  \<^verbatim>\<open>std::stoul\<close> on a string of decimal digits, as \<^verbatim>\<open>Open_param::index\<close> reads the
  content back.
\<close>

definition stoul :: "string \<Rightarrow> nat" where
  "stoul s = foldl (\<lambda>a c. 10 * a + (of_char c - 48)) 0 s"

definition index :: "Open_param \<Rightarrow> 32 word" where
  "index p = (if open_mode p = GX_OPEN_INDEX then of_nat (stoul (content_' p)) else 0)"

subsection \<open>The vendor libraries and the world\<close>

text \<open>
  An event is one invocation of a native function with the arguments it received.
  Out-parameters are destinations, not values, and are left out; an in/out parameter
  appears with the value passed in.
\<close>

datatype native_fn =
    GXGetLastError | GXInitLib | GXCloseLib | GXUpdateDeviceList | GXUpdateAllDeviceList
  | GXOpenDeviceByIndex | GXOpenDevice | GXCloseDevice | GXStreamOn | GXStreamOff
  | GXRegisterCaptureCallback | GXUnregisterCaptureCallback | GXSendCommand | GXFlushQueue
  | GXGetEnum | GXSetEnum | GXGetFloat | GXSetFloat | GXGetInt | GXSetInt
  | GXGetFloatRange | GXIsImplemented | GXGetImage | DxRaw8toRGB24
  | std_malloc | std_free | operator_new | operator_delete

datatype arg =
    Handle GX_DEV_HANDLE
  | Ptr pointer
  | Null
  | Buffer nat                 \<comment> \<open>a pointer to a buffer of that many bytes\<close>
  | Size nat
  | Feature GX_FEATURE_ID
  | I64 "64 word"
  | U32 "32 word"
  | I32 "32 word"
  | F64 double
  | Flag bool
  | Param GX_OPEN_PARAM

type_synonym event = "native_fn \<times> arg list"

record 'v world =
  vendor :: 'v
  trace :: "event list"

definition invoke ::
  "event \<Rightarrow> ('v \<Rightarrow> 'a \<times> 'v) \<Rightarrow> ('v, 'm) world_scheme \<Rightarrow> 'a \<times> ('v, 'm) world_scheme" where
  "invoke e impl w =
     (case impl (vendor w) of (r, v') \<Rightarrow> (r, w\<lparr>vendor := v', trace := trace w @ [e]\<rparr>))"

text \<open>
  \<^verbatim>\<open>GX_FRAME_DATA\<close>: the wrapper touches \<^verbatim>\<open>pImgBuf\<close> only; the other members, which
  the vendor fills in, are kept as they come.
\<close>

record GX_FRAME_DATA =
  pImgBuf :: pointer
  frame_info :: "64 word list"

text \<open>
  The camera interface. Each implementation takes the arguments of the C function (for
  an out-parameter, the value stored there before the call) and the vendor state, and
  gives the returned status, the values left in the out-parameters, and the new vendor
  state. \<open>impl_GXGetLastError\<close> gives the characters it writes to the buffer.
\<close>

record 'v gx_api =
  GX_STATUS_SUCCESS :: GX_STATUS
  impl_GXGetLastError ::
    "GX_STATUS \<Rightarrow> string option \<Rightarrow> nat \<Rightarrow> 'v \<Rightarrow> (GX_STATUS \<times> GX_STATUS \<times> string \<times> nat) \<times> 'v"
  impl_GXInitLib :: "'v \<Rightarrow> GX_STATUS \<times> 'v"
  impl_GXCloseLib :: "'v \<Rightarrow> GX_STATUS \<times> 'v"
  impl_GXUpdateDeviceList :: "32 word \<Rightarrow> 32 word \<Rightarrow> 'v \<Rightarrow> (GX_STATUS \<times> 32 word) \<times> 'v"
  impl_GXUpdateAllDeviceList :: "32 word \<Rightarrow> 32 word \<Rightarrow> 'v \<Rightarrow> (GX_STATUS \<times> 32 word) \<times> 'v"
  impl_GXOpenDeviceByIndex ::
    "32 word \<Rightarrow> GX_DEV_HANDLE \<Rightarrow> 'v \<Rightarrow> (GX_STATUS \<times> GX_DEV_HANDLE) \<times> 'v"
  impl_GXOpenDevice ::
    "GX_OPEN_PARAM \<Rightarrow> GX_DEV_HANDLE \<Rightarrow> 'v \<Rightarrow> (GX_STATUS \<times> GX_DEV_HANDLE) \<times> 'v"
  impl_GXCloseDevice :: "GX_DEV_HANDLE \<Rightarrow> 'v \<Rightarrow> GX_STATUS \<times> 'v"
  impl_GXStreamOn :: "GX_DEV_HANDLE \<Rightarrow> 'v \<Rightarrow> GX_STATUS \<times> 'v"
  impl_GXStreamOff :: "GX_DEV_HANDLE \<Rightarrow> 'v \<Rightarrow> GX_STATUS \<times> 'v"
  impl_GXRegisterCaptureCallback ::
    "GX_DEV_HANDLE \<Rightarrow> pointer \<Rightarrow> pointer \<Rightarrow> 'v \<Rightarrow> GX_STATUS \<times> 'v"
  impl_GXUnregisterCaptureCallback :: "GX_DEV_HANDLE \<Rightarrow> 'v \<Rightarrow> GX_STATUS \<times> 'v"
  impl_GXSendCommand :: "GX_DEV_HANDLE \<Rightarrow> GX_FEATURE_ID \<Rightarrow> 'v \<Rightarrow> GX_STATUS \<times> 'v"
  impl_GXFlushQueue :: "GX_DEV_HANDLE \<Rightarrow> 'v \<Rightarrow> GX_STATUS \<times> 'v"
  impl_GXGetEnum ::
    "GX_DEV_HANDLE \<Rightarrow> GX_FEATURE_ID \<Rightarrow> 64 word \<Rightarrow> 'v \<Rightarrow> (GX_STATUS \<times> 64 word) \<times> 'v"
  impl_GXSetEnum :: "GX_DEV_HANDLE \<Rightarrow> GX_FEATURE_ID \<Rightarrow> 64 word \<Rightarrow> 'v \<Rightarrow> GX_STATUS \<times> 'v"
  impl_GXGetFloat ::
    "GX_DEV_HANDLE \<Rightarrow> GX_FEATURE_ID \<Rightarrow> double \<Rightarrow> 'v \<Rightarrow> (GX_STATUS \<times> double) \<times> 'v"
  impl_GXSetFloat :: "GX_DEV_HANDLE \<Rightarrow> GX_FEATURE_ID \<Rightarrow> double \<Rightarrow> 'v \<Rightarrow> GX_STATUS \<times> 'v"
  impl_GXGetInt ::
    "GX_DEV_HANDLE \<Rightarrow> GX_FEATURE_ID \<Rightarrow> 64 word \<Rightarrow> 'v \<Rightarrow> (GX_STATUS \<times> 64 word) \<times> 'v"
  impl_GXSetInt :: "GX_DEV_HANDLE \<Rightarrow> GX_FEATURE_ID \<Rightarrow> 64 word \<Rightarrow> 'v \<Rightarrow> GX_STATUS \<times> 'v"
  impl_GXGetFloatRange ::
    "GX_DEV_HANDLE \<Rightarrow> GX_FEATURE_ID \<Rightarrow> double \<times> double \<Rightarrow> 'v
       \<Rightarrow> (GX_STATUS \<times> double \<times> double) \<times> 'v"
  impl_GXIsImplemented ::
    "GX_DEV_HANDLE \<Rightarrow> GX_FEATURE_ID \<Rightarrow> bool \<Rightarrow> 'v \<Rightarrow> (GX_STATUS \<times> bool) \<times> 'v"
  impl_GXGetImage ::
    "GX_DEV_HANDLE \<Rightarrow> GX_FRAME_DATA \<Rightarrow> 32 word \<Rightarrow> 'v \<Rightarrow> (GX_STATUS \<times> GX_FRAME_DATA) \<times> 'v"

text \<open>
  The image processing library: its status codes and the one function the wrapper uses.
\<close>

type_synonym DX_BAYER_CONVERT_TYPE = "32 word"
type_synonym DX_PIXEL_COLOR_FILTER = "32 word"

record 'v dx_api =
  DX_OK :: VxInt32
  DX_PARAMETER_INVALID :: VxInt32
  DX_PARAMETER_OUT_OF_BOUND :: VxInt32
  DX_NOT_ENOUGH_SYSTEM_MEMORY :: VxInt32
  DX_NOT_FIND_DEVICE :: VxInt32
  DX_STATUS_NOT_SUPPORTED :: VxInt32
  DX_CPU_NOT_SUPPORT_ACCELERATE :: VxInt32
  impl_DxRaw8toRGB24 ::
    "pointer \<Rightarrow> pointer \<Rightarrow> 32 word \<Rightarrow> 32 word \<Rightarrow> DX_BAYER_CONVERT_TYPE
       \<Rightarrow> DX_PIXEL_COLOR_FILTER \<Rightarrow> bool \<Rightarrow> 'v \<Rightarrow> VxInt32 \<times> 'v"

text \<open>
  The allocator of the C++ runtime: \<^verbatim>\<open>std::malloc\<close> gives an address or the null
  pointer, \<^verbatim>\<open>operator new[]\<close> gives an address or throws \<^verbatim>\<open>std::bad_alloc\<close>
  (\<open>None\<close>).
\<close>

record 'v runtime =
  impl_malloc :: "nat \<Rightarrow> 'v \<Rightarrow> pointer \<times> 'v"
  impl_new :: "nat \<Rightarrow> 'v \<Rightarrow> pointer option \<times> 'v"



definition new_array ::
  "'v runtime \<Rightarrow> nat \<Rightarrow> (('v, 'm) world_scheme, pointer) prog" where
  "new_array rt n w =
     (case invoke (operator_new, [Size n]) (impl_new rt n) w of
        (None, w') \<Rightarrow> (Inl Bad_alloc, w')
      | (Some p, w') \<Rightarrow> (Inr p, w'))"

definition delete_array :: "pointer \<Rightarrow> ('v, 'm) world_scheme \<Rightarrow> ('v, 'm) world_scheme" where
  "delete_array p w = snd (invoke (operator_delete, [Ptr p]) (\<lambda>v. ((), v)) w)"

subsection \<open>Invoking the natives\<close>

text \<open>Writing \<open>text\<close> into a buffer changes its first characters and not its length.\<close>

definition poke :: "string \<Rightarrow> string \<Rightarrow> string" where
  "poke buf text = take (length buf) (text @ drop (length text) buf)"

definition invoke_GXGetLastError ::
  "'v gx_api \<Rightarrow> GX_STATUS \<Rightarrow> string option \<Rightarrow> nat \<Rightarrow> ('v, 'm) world_scheme
     \<Rightarrow> (GX_STATUS \<times> GX_STATUS \<times> string \<times> nat) \<times> ('v, 'm) world_scheme" where
  "invoke_GXGetLastError sdk code buf n w =
     (case invoke (GXGetLastError,
                   [case buf of None \<Rightarrow> Null | Some b \<Rightarrow> Buffer (length b), Size n])
                  (impl_GXGetLastError sdk code buf n) w of
        ((s, code', text, n'), w') \<Rightarrow>
          ((s, code', (case buf of None \<Rightarrow> [] | Some b \<Rightarrow> poke b text), n'), w'))"














definition invoke_GXGetEnum ::
  "'v gx_api \<Rightarrow> GX_DEV_HANDLE \<Rightarrow> GX_FEATURE_ID \<Rightarrow> 64 word \<Rightarrow> ('v, 'm) world_scheme
     \<Rightarrow> (GX_STATUS \<times> 64 word) \<times> ('v, 'm) world_scheme" where
  "invoke_GXGetEnum sdk h f r =
     invoke (GXGetEnum, [Handle h, Feature f]) (impl_GXGetEnum sdk h f r)"

definition invoke_GXSetEnum ::
  "'v gx_api \<Rightarrow> GX_DEV_HANDLE \<Rightarrow> GX_FEATURE_ID \<Rightarrow> 64 word \<Rightarrow> ('v, 'm) world_scheme
     \<Rightarrow> GX_STATUS \<times> ('v, 'm) world_scheme" where
  "invoke_GXSetEnum sdk h f x =
     invoke (GXSetEnum, [Handle h, Feature f, I64 x]) (impl_GXSetEnum sdk h f x)"

definition invoke_GXGetFloat ::
  "'v gx_api \<Rightarrow> GX_DEV_HANDLE \<Rightarrow> GX_FEATURE_ID \<Rightarrow> double \<Rightarrow> ('v, 'm) world_scheme
     \<Rightarrow> (GX_STATUS \<times> double) \<times> ('v, 'm) world_scheme" where
  "invoke_GXGetFloat sdk h f r =
     invoke (GXGetFloat, [Handle h, Feature f]) (impl_GXGetFloat sdk h f r)"


definition invoke_GXGetInt ::
  "'v gx_api \<Rightarrow> GX_DEV_HANDLE \<Rightarrow> GX_FEATURE_ID \<Rightarrow> 64 word \<Rightarrow> ('v, 'm) world_scheme
     \<Rightarrow> (GX_STATUS \<times> 64 word) \<times> ('v, 'm) world_scheme" where
  "invoke_GXGetInt sdk h f r =
     invoke (GXGetInt, [Handle h, Feature f]) (impl_GXGetInt sdk h f r)"





definition invoke_DxRaw8toRGB24 ::
  "'v dx_api \<Rightarrow> pointer \<Rightarrow> pointer \<Rightarrow> 32 word \<Rightarrow> 32 word \<Rightarrow> DX_BAYER_CONVERT_TYPE
     \<Rightarrow> DX_PIXEL_COLOR_FILTER \<Rightarrow> bool \<Rightarrow> ('v, 'm) world_scheme
     \<Rightarrow> VxInt32 \<times> ('v, 'm) world_scheme" where
  "invoke_DxRaw8toRGB24 dx inp outp w h ct bl flip =
     invoke (DxRaw8toRGB24, [Ptr inp, Ptr outp, U32 w, U32 h, U32 ct, U32 bl, Flag flip])
            (impl_DxRaw8toRGB24 dx inp outp w h ct bl flip)"

subsection \<open>Basics: the last error and the call wrapper\<close>

definition get_last_error ::
  "'v gx_api \<Rightarrow> (('v, 'm) world_scheme, GX_STATUS \<times> string) prog" where
  "get_last_error sdk w =
     (case invoke_GXGetLastError sdk 0 None 0 w of
        ((s, code, _, str_size), w1) \<Rightarrow>
          if s = GX_STATUS_SUCCESS sdk then
            (case invoke_GXGetLastError sdk code
                    (Some (replicate str_size (CHR 0x00))) str_size w1 of
               ((s', code', str, _), w2) \<Rightarrow>
                 if s' \<noteq> GX_STATUS_SUCCESS sdk
                 then (Inl (Exception s' ''GXGetLastError()''), w2)
                 else (Inr (code', str), w2))
          else (Inl (Exception s ''GXGetLastError()''), w1))"

definition throw_if_last_error :: "'v gx_api \<Rightarrow> (('v, 'm) world_scheme, unit) prog" where
  "throw_if_last_error sdk =
     bind (get_last_error sdk) (\<lambda>(code, str).
       if code \<noteq> GX_STATUS_SUCCESS sdk then throw (Exception code str) else return ())"

text \<open>
  \<open>call sdk f\<close>: \<open>f\<close> is the native function applied to its arguments. Its result
  here is the returned status together with what it left in its out-parameters.
\<close>

definition call ::
  "'v gx_api \<Rightarrow> (('v, 'm) world_scheme \<Rightarrow> 'a \<times> ('v, 'm) world_scheme)
     \<Rightarrow> (('v, 'm) world_scheme, 'a) prog" where
  "call sdk f w =
     (case f w of (result, w1) \<Rightarrow>
        bind (throw_if_last_error sdk) (\<lambda>_. return result) w1)"

subsection \<open>Free functions\<close>



subsection \<open>Class Library\<close>

text \<open>
  \<open>refs_'\<close> is the static \<^verbatim>\<open>std::atomic_int refs_\<close>, shared by all instances;
  \<open>is_refer_'\<close> is the member of one instance. A method of Library runs on the world,
  the static counter and the members of its object.
\<close>

record 'v statics = "'v world" +
  refs_' :: "32 word"

record 'v Library = "'v statics" +
  is_refer_' :: bool

definition is_refer :: "'v Library \<Rightarrow> bool" where
  "is_refer s = is_refer_' s"
















subsection \<open>Class Device\<close>

text \<open>
  A method of Device runs on the world and the member \<^verbatim>\<open>handle_\<close> of its object.
  The entry types of the vendor's feature enumerations (\<^verbatim>\<open>GX_PIXEL_FORMAT_ENTRY\<close>
  and the like) are C enumerations of the width of an \<^verbatim>\<open>int\<close>: passing one as
  \<^verbatim>\<open>std::int64_t\<close> widens it, and the \<^verbatim>\<open>static_cast\<close> back keeps the low 32 bits.
\<close>

record 'v Device = "'v world" +
  handle_' :: GX_DEV_HANDLE




text \<open>The conversion of a \<^verbatim>\<open>std::int64_t\<close> to the return type \<^verbatim>\<open>int\<close>.\<close>

definition int_of_int64 :: "64 word \<Rightarrow> 32 word" where
  "int_of_int64 x = ucast x"

text \<open>The private accessors.\<close>

definition get_enum :: "'v gx_api \<Rightarrow> GX_FEATURE_ID \<Rightarrow> ('v Device, 64 word) prog" where
  "get_enum sdk feature s =
     bind (call sdk (invoke_GXGetEnum sdk (handle_' s) feature 0))
          (\<lambda>(_, result). return result) s"

definition set_enum :: "'v gx_api \<Rightarrow> GX_FEATURE_ID \<Rightarrow> 64 word \<Rightarrow> ('v Device, unit) prog" where
  "set_enum sdk feature val s =
     bind (call sdk (invoke_GXSetEnum sdk (handle_' s) feature val)) (\<lambda>_. return ()) s"

definition get_float :: "'v gx_api \<Rightarrow> GX_FEATURE_ID \<Rightarrow> ('v Device, double) prog" where
  "get_float sdk feature s =
     bind (call sdk (invoke_GXGetFloat sdk (handle_' s) feature 0))
          (\<lambda>(_, result). return result) s"


definition get_int :: "'v gx_api \<Rightarrow> GX_FEATURE_ID \<Rightarrow> ('v Device, 64 word) prog" where
  "get_int sdk feature s =
     bind (call sdk (invoke_GXGetInt sdk (handle_' s) feature 0))
          (\<lambda>(_, result). return result) s"








definition handle :: "'v Device \<Rightarrow> GX_DEV_HANDLE" where
  "handle s = handle_' s"











definition timestamp_tick_frequency :: "'v gx_api \<Rightarrow> ('v Device, 32 word) prog" where
  "timestamp_tick_frequency sdk = bind (get_int sdk GX_INT_TIMESTAMP_TICK_FREQUENCY) (\<lambda>x. return (int_of_int64 x))"


definition timestamp_latch_value :: "'v gx_api \<Rightarrow> ('v Device, 32 word) prog" where
  "timestamp_latch_value sdk = bind (get_int sdk GX_INT_TIMESTAMP_LATCH_VALUE) (\<lambda>x. return (int_of_int64 x))"










definition payload_size :: "'v gx_api \<Rightarrow> ('v Device, 64 word) prog" where
  "payload_size sdk = get_int sdk GX_INT_PAYLOAD_SIZE"


























































subsection \<open>Namespace img\<close>

text \<open>The \<^verbatim>\<open>switch\<close>, label by label.\<close>

definition throw_if_error :: "'v dx_api \<Rightarrow> VxInt32 \<Rightarrow> exn + unit" where
  "throw_if_error dx s =
     (if s = DX_OK dx then Inr ()
      else if s = DX_PARAMETER_INVALID dx then Inl (Runtime_error ''invalid input parameter'')
      else if s = DX_PARAMETER_OUT_OF_BOUND dx
        then Inl (Runtime_error ''the parameter is out of bound'')
      else if s = DX_NOT_ENOUGH_SYSTEM_MEMORY dx then Inl Bad_alloc
      else if s = DX_NOT_FIND_DEVICE dx then Inl (Runtime_error ''no device found'')
      else if s = DX_STATUS_NOT_SUPPORTED dx
        then Inl (Runtime_error ''the format is not supported'')
      else if s = DX_CPU_NOT_SUPPORT_ACCELERATE dx
        then Inl (Runtime_error ''the CPU does not support acceleration'')
      else Inl (Runtime_error ''unknown error''))"

definition img_call ::
  "'v dx_api \<Rightarrow> (('v, 'm) world_scheme \<Rightarrow> VxInt32 \<times> ('v, 'm) world_scheme)
     \<Rightarrow> (('v, 'm) world_scheme, unit) prog" where
  "img_call dx f w = (case f w of (s, w1) \<Rightarrow> (throw_if_error dx s, w1))"

text \<open>
  The size of the array is computed in \<^verbatim>\<open>std::uint32_t\<close>, as the operands are, and
  then converted to \<^verbatim>\<open>std::size_t\<close>. The \<^verbatim>\<open>unique_ptr\<close> releases the array when
  the conversion throws.
\<close>

definition raw8_to_rgb24 ::
  "'v dx_api \<Rightarrow> 'v runtime \<Rightarrow> pointer \<Rightarrow> 32 word \<Rightarrow> 32 word \<Rightarrow> DX_BAYER_CONVERT_TYPE
     \<Rightarrow> DX_PIXEL_COLOR_FILTER \<Rightarrow> bool \<Rightarrow> (('v, 'm) world_scheme, pointer) prog" where
  "raw8_to_rgb24 dx rt input width height conversion_type bayer_layout flip =
     bind (new_array rt (unat (width * height * 3))) (\<lambda>result w.
       case img_call dx (invoke_DxRaw8toRGB24 dx input result width height
                           conversion_type bayer_layout flip) w of
         (Inl e, w1) \<Rightarrow> (Inl e, delete_array result w1)
       | (Inr _, w1) \<Rightarrow> (Inr result, w1))"

subsection \<open>Observing what a wrapper function invokes\<close>

text \<open>
  The operations among the events: the vendor functions other than the query of the last
  error, which is the error signalling itself, and other than the allocator, which is
  the resource management.
\<close>

definition is_operation :: "native_fn \<Rightarrow> bool" where
  "is_operation f =
     (f \<noteq> GXGetLastError \<and> f \<noteq> std_malloc \<and> f \<noteq> std_free \<and> f \<noteq> operator_new
        \<and> f \<noteq> operator_delete)"

definition operations :: "event list \<Rightarrow> native_fn list" where
  "operations es = filter is_operation (map fst es)"



text \<open>The events that running \<open>p\<close> from \<open>w\<close> adds to the trace.\<close>

definition emitted ::
  "(('v, 'm) world_scheme \<Rightarrow> 'r \<times> ('v, 'n) world_scheme) \<Rightarrow> ('v, 'm) world_scheme \<Rightarrow> event list" where
  "emitted p w = drop (length (trace w)) (trace (snd (p w)))"

text \<open>
  \<open>passes_at p w fs\<close>: run from \<open>w\<close>, the function \<open>p\<close> only extends the trace; the
  operations it invokes are, in this order, the functions \<open>fs\<close> when it returns, and
  the first few of them when it throws.
\<close>

definition passes_at ::
  "(('v, 'm) world_scheme \<Rightarrow> (exn + 'a) \<times> ('v, 'n) world_scheme) \<Rightarrow> ('v, 'm) world_scheme
     \<Rightarrow> native_fn list \<Rightarrow> bool" where
  "passes_at p w fs =
     (trace (snd (p w)) = trace w @ emitted p w
      \<and> prefix (operations (emitted p w)) fs
      \<and> (returns (fst (p w)) \<longrightarrow> operations (emitted p w) = fs))"

definition passes ::
  "(('v, 'm) world_scheme \<Rightarrow> (exn + 'a) \<times> ('v, 'n) world_scheme) \<Rightarrow> native_fn list \<Rightarrow> bool" where
  "passes p fs = (\<forall>w. passes_at p w fs)"




subsection \<open>A simulated vendor\<close>

text \<open>
  A small vendor to run the wrapper on: a native function raises the next error code of
  a script (none when the script is used up) and records it as the last error; the
  getters store the value of a register when they succeed. The status codes of the image
  library are those of the vendor's header.
\<close>

record sim =
  script :: "GX_STATUS list"
  last :: GX_STATUS
  reg :: "64 word"

definition sim_native :: "sim \<Rightarrow> GX_STATUS \<times> sim" where
  "sim_native v =
     (case script v of
        [] \<Rightarrow> (0, v\<lparr>last := 0\<rparr>)
      | c # cs \<Rightarrow> (c, v\<lparr>script := cs, last := c\<rparr>))"

definition sim_getter :: "'a \<Rightarrow> 'a \<Rightarrow> sim \<Rightarrow> (GX_STATUS \<times> 'a) \<times> sim" where
  "sim_getter stored r v =
     (case sim_native v of (c, v') \<Rightarrow> ((c, if c = 0 then stored else r), v'))"

definition sim_text :: "GX_STATUS \<Rightarrow> string" where
  "sim_text c = (if c = 0 then [] else ''error'')"

definition sim_api :: "sim gx_api" where
  "sim_api =
     \<lparr>GX_STATUS_SUCCESS = 0,
      impl_GXGetLastError =
        (\<lambda>code buf n v. ((0, last v, sim_text (last v), length (sim_text (last v))), v)),
      impl_GXInitLib = sim_native,
      impl_GXCloseLib = sim_native,
      impl_GXUpdateDeviceList = (\<lambda>n t v. sim_getter (ucast (reg v)) n v),
      impl_GXUpdateAllDeviceList = (\<lambda>n t v. sim_getter (ucast (reg v)) n v),
      impl_GXOpenDeviceByIndex = (\<lambda>i h v. sim_getter (unat i) h v),
      impl_GXOpenDevice = (\<lambda>p h v. sim_getter 1 h v),
      impl_GXCloseDevice = (\<lambda>h. sim_native),
      impl_GXStreamOn = (\<lambda>h. sim_native),
      impl_GXStreamOff = (\<lambda>h. sim_native),
      impl_GXRegisterCaptureCallback = (\<lambda>h d cb. sim_native),
      impl_GXUnregisterCaptureCallback = (\<lambda>h. sim_native),
      impl_GXSendCommand = (\<lambda>h f. sim_native),
      impl_GXFlushQueue = (\<lambda>h. sim_native),
      impl_GXGetEnum = (\<lambda>h f r v. sim_getter (reg v) r v),
      impl_GXSetEnum = (\<lambda>h f x. sim_native),
      impl_GXGetFloat = (\<lambda>h f r v. sim_getter (reg v) r v),
      impl_GXSetFloat = (\<lambda>h f x. sim_native),
      impl_GXGetInt = (\<lambda>h f r v. sim_getter (reg v) r v),
      impl_GXSetInt = (\<lambda>h f x. sim_native),
      impl_GXGetFloatRange = (\<lambda>h f r v. sim_getter (0, reg v) r v),
      impl_GXIsImplemented = (\<lambda>h f r v. sim_getter True r v),
      impl_GXGetImage = (\<lambda>h fr t v. sim_getter (fr\<lparr>frame_info := [reg v]\<rparr>) fr v)\<rparr>"

text \<open>The same vendor, whose query of the last error fails and writes nothing.\<close>

definition deaf_api :: "sim gx_api" where
  "deaf_api = sim_api\<lparr>impl_GXGetLastError := (\<lambda>code buf n v. ((- 1, code, [], n), v))\<rparr>"

definition sim_dx :: "sim dx_api" where
  "sim_dx =
     \<lparr>DX_OK = 0,
      DX_PARAMETER_INVALID = - 101,
      DX_PARAMETER_OUT_OF_BOUND = - 102,
      DX_NOT_ENOUGH_SYSTEM_MEMORY = - 103,
      DX_NOT_FIND_DEVICE = - 104,
      DX_STATUS_NOT_SUPPORTED = - 105,
      DX_CPU_NOT_SUPPORT_ACCELERATE = - 106,
      impl_DxRaw8toRGB24 = (\<lambda>inp outp w h ct bl flip. sim_native)\<rparr>"

definition sim_rt :: "sim runtime" where
  "sim_rt = \<lparr>impl_malloc = (\<lambda>n v. (4096, v)), impl_new = (\<lambda>n v. (Some 4096, v))\<rparr>"

definition quiet :: sim where
  "quiet = \<lparr>script = [], last = 0, reg = 0\<rparr>"

definition camera :: "sim \<Rightarrow> GX_DEV_HANDLE \<Rightarrow> sim Device" where
  "camera v h = \<lparr>vendor = v, trace = [], handle_' = h\<rparr>"

subsection \<open>Predicates of the proofs\<close>

text \<open>
  \<open>native f e\<close>: the function \<open>f\<close> is one native invocation, recorded as the
  event \<open>e\<close>; it changes the vendor state and nothing else.
\<close>

definition native :: "(('v, 'm) world_scheme \<Rightarrow> 'a \<times> ('v, 'm) world_scheme) \<Rightarrow> event \<Rightarrow> bool" where
  "native f e = (\<forall>w. \<exists>v'. snd (f w) = w\<lparr>vendor := v', trace := trace w @ [e]\<rparr>)"



subsection \<open>The public operations of Device\<close>


section \<open>Properties\<close>

subsection \<open>The named constructors of Open_param\<close>

lemma stoul_snoc: "stoul (xs @ [c]) = 10 * stoul xs + (of_char c - 48)"
  by (simp add: stoul_def)

text \<open>The string of a number is its decimal notation: reading it back gives the number.\<close>

lemma stoul_digits: "stoul (digits n) = n"
proof (induction n rule: digits.induct)
  case (1 n)
  show ?case
  proof (cases "n < 10")
    case True
    then show ?thesis
      by (subst digits.simps) (simp add: stoul_def)
  next
    case False
    with 1 have "stoul (digits (n div 10)) = n div 10" by simp
    with False show ?thesis
      by (subst digits.simps) (simp add: stoul_snoc)
  qed
qed

lemma index_by_index:
  assumes "0 < sint i"
  shows "index (Open_param_ctor (to_string (sint i)) GX_OPEN_INDEX am) = i"
proof -
  have "word_of_nat (nat (sint i)) = (word_of_int (int (nat (sint i))) :: 32 word)"
    by (simp only: of_int_of_nat_eq)
  with assms have "word_of_nat (nat (sint i)) = i"
    by simp
  then show ?thesis
    using assms
    by (simp add: index_def open_mode_def Open_param_ctor_def to_string_def stoul_digits)
qed

text \<open>
  Claim C9. The named constructors \<^verbatim>\<open>by_sn\<close>, \<^verbatim>\<open>by_ip\<close>, \<^verbatim>\<open>by_mac\<close> and
  \<^verbatim>\<open>by_userid\<close> throw \<^verbatim>\<open>std::invalid_argument\<close> if and only if the string is
  empty, and \<^verbatim>\<open>by_index\<close> if and only if the index is not greater than 0. Otherwise
  each returns an Open_param whose content is the argument (for \<^verbatim>\<open>by_index\<close> its
  decimal string, which \<^verbatim>\<open>index\<close> reads back as the same number), whose open mode is
  the matching one and whose access mode is the given one.
\<close>

theorem named_constructors:
  "((\<exists>msg. by_sn str am = Inl (Invalid_argument msg)) \<longleftrightarrow> str = [])
   \<and> ((\<exists>msg. by_ip str am = Inl (Invalid_argument msg)) \<longleftrightarrow> str = [])
   \<and> ((\<exists>msg. by_mac str am = Inl (Invalid_argument msg)) \<longleftrightarrow> str = [])
   \<and> ((\<exists>msg. by_userid str am = Inl (Invalid_argument msg)) \<longleftrightarrow> str = [])
   \<and> ((\<exists>msg. by_index i am = Inl (Invalid_argument msg)) \<longleftrightarrow> \<not> 0 < sint i)
   \<and> (str \<noteq> [] \<longrightarrow>
        (\<exists>p. by_sn str am = Inr p \<and> content p = str \<and> open_mode p = GX_OPEN_SN
              \<and> access_mode p = am)
      \<and> (\<exists>p. by_ip str am = Inr p \<and> content p = str \<and> open_mode p = GX_OPEN_IP
              \<and> access_mode p = am)
      \<and> (\<exists>p. by_mac str am = Inr p \<and> content p = str \<and> open_mode p = GX_OPEN_MAC
              \<and> access_mode p = am)
      \<and> (\<exists>p. by_userid str am = Inr p \<and> content p = str \<and> open_mode p = GX_OPEN_USERID
              \<and> access_mode p = am))
   \<and> (0 < sint i \<longrightarrow>
        (\<exists>p. by_index i am = Inr p \<and> content p = to_string (sint i)
              \<and> stoul (content p) = nat (sint i)
              \<and> open_mode p = GX_OPEN_INDEX \<and> access_mode p = am \<and> index p = i))"
  using index_by_index [of i am]
  by (simp add: by_sn_def by_ip_def by_mac_def by_userid_def by_index_def content_def
      open_mode_def access_mode_def Open_param_ctor_def to_string_def stoul_digits)

theorem named_constructors_witness:
  "by_sn ''KJ0180110012'' GX_ACCESS_EXCLUSIVE
     = Inr \<lparr>content_' = ''KJ0180110012'',
            handle_' = \<lparr>pszContent = ''KJ0180110012'', openMode = GX_OPEN_SN,
                        accessMode = GX_ACCESS_EXCLUSIVE\<rparr>\<rparr>
   \<and> by_index 1207 GX_ACCESS_EXCLUSIVE
     = Inr \<lparr>content_' = ''1207'',
            handle_' = \<lparr>pszContent = ''1207'', openMode = GX_OPEN_INDEX,
                        accessMode = GX_ACCESS_EXCLUSIVE\<rparr>\<rparr>
   \<and> by_index 0 GX_ACCESS_CONTROL = Inl (Invalid_argument ''invalid camera index'')
   \<and> by_ip [] GX_ACCESS_CONTROL = Inl (Invalid_argument ''invalid camera IP address'')"
proof -
  have t: "to_string 1207 = ''1207''"
    by code_simp
  show ?thesis
    using named_constructors [of "''KJ0180110012''" GX_ACCESS_EXCLUSIVE 1207]
      named_constructors [of "[]" GX_ACCESS_CONTROL 0]
    by (simp add: by_sn_def by_index_def by_ip_def t Open_param_ctor_def)
qed

subsection \<open>The status of the image library\<close>

text \<open>
  Claim C3. \<^verbatim>\<open>img::throw_if_error\<close> returns normally if and only if the status is
  \<^verbatim>\<open>DX_OK\<close>; for \<^verbatim>\<open>DX_NOT_ENOUGH_SYSTEM_MEMORY\<close> it throws \<^verbatim>\<open>std::bad_alloc\<close>,
  and for every other status, named or not, it throws \<^verbatim>\<open>std::runtime_error\<close>; so
  \<^verbatim>\<open>img::call\<close> returns normally only when the native function gave \<^verbatim>\<open>DX_OK\<close>.
  The status codes are those of the vendor's header, whatever their values, as long as
  they are distinct, as the labels of a \<^verbatim>\<open>switch\<close> are.
\<close>

theorem throw_if_error_cases:
  assumes "distinct [DX_OK dx, DX_PARAMETER_INVALID dx, DX_PARAMETER_OUT_OF_BOUND dx,
             DX_NOT_ENOUGH_SYSTEM_MEMORY dx, DX_NOT_FIND_DEVICE dx, DX_STATUS_NOT_SUPPORTED dx,
             DX_CPU_NOT_SUPPORT_ACCELERATE dx]"
  shows "(throw_if_error dx s = Inr () \<longleftrightarrow> s = DX_OK dx)
    \<and> (s = DX_NOT_ENOUGH_SYSTEM_MEMORY dx \<longrightarrow> throw_if_error dx s = Inl Bad_alloc)
    \<and> (s \<noteq> DX_OK dx \<and> s \<noteq> DX_NOT_ENOUGH_SYSTEM_MEMORY dx \<longrightarrow>
         (\<exists>msg. throw_if_error dx s = Inl (Runtime_error msg)))
    \<and> (s \<notin> {DX_OK dx, DX_PARAMETER_INVALID dx, DX_PARAMETER_OUT_OF_BOUND dx,
             DX_NOT_ENOUGH_SYSTEM_MEMORY dx, DX_NOT_FIND_DEVICE dx, DX_STATUS_NOT_SUPPORTED dx,
             DX_CPU_NOT_SUPPORT_ACCELERATE dx} \<longrightarrow>
         throw_if_error dx s = Inl (Runtime_error ''unknown error''))
    \<and> (returns (fst (img_call dx f w)) \<longleftrightarrow> fst (f w) = DX_OK dx)"
  using assms
  by (auto simp add: throw_if_error_def img_call_def returns_def split: prod.splits)

theorem throw_if_error_cases_witness:
  "distinct [DX_OK sim_dx, DX_PARAMETER_INVALID sim_dx, DX_PARAMETER_OUT_OF_BOUND sim_dx,
     DX_NOT_ENOUGH_SYSTEM_MEMORY sim_dx, DX_NOT_FIND_DEVICE sim_dx,
     DX_STATUS_NOT_SUPPORTED sim_dx, DX_CPU_NOT_SUPPORT_ACCELERATE sim_dx]
   \<and> throw_if_error sim_dx 0 = Inr ()
   \<and> throw_if_error sim_dx (- 103) = Inl Bad_alloc
   \<and> throw_if_error sim_dx (- 105) = Inl (Runtime_error ''the format is not supported'')
   \<and> throw_if_error sim_dx 7 = Inl (Runtime_error ''unknown error'')"
proof -
  have d: "distinct [DX_OK sim_dx, DX_PARAMETER_INVALID sim_dx, DX_PARAMETER_OUT_OF_BOUND sim_dx,
             DX_NOT_ENOUGH_SYSTEM_MEMORY sim_dx, DX_NOT_FIND_DEVICE sim_dx,
             DX_STATUS_NOT_SUPPORTED sim_dx, DX_CPU_NOT_SUPPORT_ACCELERATE sim_dx]"
    by (simp add: sim_dx_def)
  show ?thesis
    using d throw_if_error_cases [OF d, of 0] throw_if_error_cases [OF d, of "- 103"]
      throw_if_error_cases [OF d, of "- 105"] throw_if_error_cases [OF d, of 7]
    by (simp add: sim_dx_def throw_if_error_def)
qed

subsection \<open>The call wrapper\<close>

lemmas sim_eval =
  sim_api_def deaf_api_def sim_native_def sim_getter_def sim_text_def quiet_def camera_def
  invoke_def get_last_error_def throw_if_last_error_def call_def bind_def return_def throw_def
  poke_def invoke_GXGetLastError_def

lemma call_unfold:
  "call sdk f w =
     (case get_last_error sdk (snd (f w)) of
        (Inl e, w2) \<Rightarrow> (Inl e, w2)
      | (Inr (code, str), w2) \<Rightarrow>
          (if code \<noteq> GX_STATUS_SUCCESS sdk then Inl (Exception code str) else Inr (fst (f w)), w2))"
  by (simp add: call_def throw_if_last_error_def bind_def return_def throw_def
      split: prod.splits sum.splits)


lemma native_invoke: "native (invoke e impl) e"
  by (auto simp add: native_def invoke_def split: prod.splits)

lemma invoke_GXGetLastError_extends:
  "\<exists>v' a. snd (invoke_GXGetLastError sdk code buf n w)
       = w\<lparr>vendor := v', trace := trace w @ [(GXGetLastError, a)]\<rparr>"
  by (auto simp add: invoke_GXGetLastError_def invoke_def split: prod.splits)

lemma get_last_error_extends:
  "\<exists>v' es. snd (get_last_error sdk w) = w\<lparr>vendor := v', trace := trace w @ es\<rparr>
       \<and> es \<noteq> [] \<and> (\<forall>y\<in>set es. fst y = GXGetLastError)"
proof -
  obtain s c t n w1 where q1: "invoke_GXGetLastError sdk 0 None 0 w = ((s, c, t, n), w1)"
    by (metis prod_cases4 surj_pair)
  obtain v1 a where t1: "w1 = w\<lparr>vendor := v1, trace := trace w @ [(GXGetLastError, a)]\<rparr>"
    using invoke_GXGetLastError_extends [of sdk 0 None 0 w] q1 by auto
  show ?thesis
  proof (cases "s = GX_STATUS_SUCCESS sdk")
    case False
    with q1 have "snd (get_last_error sdk w) = w1"
      by (simp add: get_last_error_def)
    with t1 show ?thesis by fastforce
  next
    case True
    obtain s' c' t' n' w2 where
      q2: "invoke_GXGetLastError sdk c (Some (replicate n (CHR 0x00))) n w1 = ((s', c', t', n'), w2)"
      by (metis prod_cases4 surj_pair)
    obtain v2 b where t2: "w2 = w1\<lparr>vendor := v2, trace := trace w1 @ [(GXGetLastError, b)]\<rparr>"
      using invoke_GXGetLastError_extends [of sdk c "Some (replicate n (CHR 0x00))" n w1] q2
      by auto
    from True q1 q2 have "snd (get_last_error sdk w) = w2"
      by (simp add: get_last_error_def)
    with t1 t2 have "snd (get_last_error sdk w)
        = w\<lparr>vendor := v2, trace := trace w @ [(GXGetLastError, a), (GXGetLastError, b)]\<rparr>"
      by simp
    then show ?thesis by fastforce
  qed
qed

lemma call_cases:
  assumes "native f e"
  obtains (throws) x v' es where
      "call sdk f w = (Inl x, w\<lparr>vendor := v', trace := trace w @ e # es\<rparr>)"
      "\<forall>y\<in>set es. fst y = GXGetLastError"
    | (returns) v' es where
      "call sdk f w = (Inr (fst (f w)), w\<lparr>vendor := v', trace := trace w @ e # es\<rparr>)"
      "\<forall>y\<in>set es. fst y = GXGetLastError"
proof -
  obtain v1 where f: "snd (f w) = w\<lparr>vendor := v1, trace := trace w @ [e]\<rparr>"
    using assms by (auto simp add: native_def)
  obtain v2 es where g: "snd (get_last_error sdk (snd (f w)))
      = (snd (f w))\<lparr>vendor := v2, trace := trace (snd (f w)) @ es\<rparr>"
    and es: "\<forall>y\<in>set es. fst y = GXGetLastError"
    using get_last_error_extends [of sdk "snd (f w)"] by blast
  from f g have st: "snd (get_last_error sdk (snd (f w)))
      = w\<lparr>vendor := v2, trace := trace w @ e # es\<rparr>"
    by simp
  have "snd (call sdk f w) = snd (get_last_error sdk (snd (f w)))"
    by (simp add: call_unfold split: prod.splits sum.splits)
  with st have c: "snd (call sdk f w) = w\<lparr>vendor := v2, trace := trace w @ e # es\<rparr>"
    by simp
  have r: "(\<exists>x. fst (call sdk f w) = Inl x) \<or> fst (call sdk f w) = Inr (fst (f w))"
    by (simp add: call_unfold split: prod.splits sum.splits)
  from c r es show ?thesis
    by (metis prod.collapse throws returns)
qed






subsection \<open>Closing a Device\<close>




lemma emitted_eq: "trace (snd (p w)) = trace w @ es \<Longrightarrow> emitted p w = es"
  by (simp add: emitted_def)









subsection \<open>The feature accessors\<close>

text \<open>
  What a getter returns is what the vendor function stored in its out-parameter, and a
  setter hands the given value to the vendor function.
\<close>

lemma call_returns: "call sdk f w = (Inr x, w') \<Longrightarrow> x = fst (f w)"
  by (auto simp add: call_unfold split: prod.splits sum.splits if_splits)

lemma fst_invoke: "fst (invoke e impl w) = fst (impl (vendor w))"
  by (simp add: invoke_def split: prod.splits)

lemma get_int_value:
  "fst (get_int sdk feature s) = Inr y
   \<Longrightarrow> y = snd (fst (impl_GXGetInt sdk (handle_' s) feature 0 (vendor s)))"
  by (auto simp add: get_int_def bind_def return_def invoke_GXGetInt_def fst_invoke
      split: prod.splits sum.splits dest!: call_returns) (metis snd_conv)

lemma get_enum_value:
  "fst (get_enum sdk feature s) = Inr y
   \<Longrightarrow> y = snd (fst (impl_GXGetEnum sdk (handle_' s) feature 0 (vendor s)))"
  by (auto simp add: get_enum_def bind_def return_def invoke_GXGetEnum_def fst_invoke
      split: prod.splits sum.splits dest!: call_returns) (metis snd_conv)

lemma get_float_value:
  "fst (get_float sdk feature s) = Inr y
   \<Longrightarrow> y = snd (fst (impl_GXGetFloat sdk (handle_' s) feature 0 (vendor s)))"
  by (auto simp add: get_float_def bind_def return_def invoke_GXGetFloat_def fst_invoke
      split: prod.splits sum.splits dest!: call_returns) (metis snd_conv)

lemma set_enum_request:
  "\<exists>es. trace (snd (set_enum sdk feature x s))
       = trace s @ (GXSetEnum, [Handle (handle_' s), Feature feature, I64 x]) # es
     \<and> (\<forall>y\<in>set es. fst y = GXGetLastError)"
proof -
  have n: "native (invoke_GXSetEnum sdk (handle_' s) feature x :: 'a Device \<Rightarrow> _)
             (GXSetEnum, [Handle (handle_' s), Feature feature, I64 x])"
    by (simp add: invoke_GXSetEnum_def native_invoke)
  show ?thesis
    by (rule call_cases [OF n, of sdk s])
       (auto simp add: set_enum_def bind_def return_def)
qed

text \<open>
  Claim C5: every getter returns exactly the value that the vendor's get function stored.
  \<^verbatim>\<open>timestamp_latch_value\<close> and \<^verbatim>\<open>timestamp_tick_frequency\<close> do not: their return
  type is \<^verbatim>\<open>int\<close>, while \<^verbatim>\<open>get_int\<close> and the sibling \<^verbatim>\<open>payload_size\<close> give
  the \<^verbatim>\<open>std::int64_t\<close>. With the value \<open>2\<^sup>3\<^sup>2 + 5\<close> stored by the vendor, they
  return 5.
\<close>

theorem timestamp_latch_value_truncates:
  "fst (get_int sim_api GX_INT_TIMESTAMP_LATCH_VALUE (camera (quiet\<lparr>reg := 4294967301\<rparr>) 1))
     = Inr 4294967301
   \<and> fst (payload_size sim_api (camera (quiet\<lparr>reg := 4294967301\<rparr>) 1)) = Inr 4294967301
   \<and> fst (timestamp_latch_value sim_api (camera (quiet\<lparr>reg := 4294967301\<rparr>) 1)) = Inr 5
   \<and> fst (timestamp_tick_frequency sim_api (camera (quiet\<lparr>reg := 4294967301\<rparr>) 1)) = Inr 5"
  by (simp add: sim_eval get_int_def invoke_GXGetInt_def payload_size_def
      timestamp_latch_value_def timestamp_tick_frequency_def int_of_int64_def)

subsection \<open>The conversion to RGB\<close>

text \<open>
  As long as the product of the dimensions fits into 32 bits, \<^verbatim>\<open>raw8_to_rgb24\<close>
  allocates that many bytes, hands the arguments to the vendor function, and returns the
  array or releases it and throws.
\<close>

lemma raw8_to_rgb24_spec:
  assumes "unat width * unat height * 3 < 2 ^ 32"
    and "impl_new rt (unat width * unat height * 3) (vendor w) = (Some p, v1)"
    and "impl_DxRaw8toRGB24 dx input p width height ct bl flip v1 = (st, v2)"
  shows "raw8_to_rgb24 dx rt input width height ct bl flip w
     = (case throw_if_error dx st of
          Inr _ \<Rightarrow>
            (Inr p,
             w\<lparr>vendor := v2,
               trace := trace w @ [(operator_new, [Size (unat width * unat height * 3)]),
                 (DxRaw8toRGB24, [Ptr input, Ptr p, U32 width, U32 height, U32 ct, U32 bl,
                                  Flag flip])]\<rparr>)
        | Inl e \<Rightarrow>
            (Inl e,
             w\<lparr>vendor := v2,
               trace := trace w @ [(operator_new, [Size (unat width * unat height * 3)]),
                 (DxRaw8toRGB24, [Ptr input, Ptr p, U32 width, U32 height, U32 ct, U32 bl,
                                  Flag flip]),
                 (operator_delete, [Ptr p])]\<rparr>))"
proof -
  have "unat (width * height * 3) = unat width * unat height * 3"
    using assms(1) by (simp add: unat_word_ariths)
  with assms(2,3) show ?thesis
    by (simp add: raw8_to_rgb24_def new_array_def img_call_def invoke_DxRaw8toRGB24_def
        invoke_def bind_def delete_array_def split: sum.splits)
qed

text \<open>
  Claim C6: the output buffer has exactly \<^verbatim>\<open>width * height * 3\<close> bytes. The code
  computes the product in \<^verbatim>\<open>std::uint32_t\<close>: for an image of 65536 by 65536 pixels
  it allocates 0 bytes and has the vendor function convert the whole image into them.
\<close>

theorem raw8_to_rgb24_overflow:
  "raw8_to_rgb24 sim_dx sim_rt 100 65536 65536 0 0 False \<lparr>vendor = quiet, trace = []\<rparr>
     = (Inr 4096,
        \<lparr>vendor = quiet,
         trace = [(operator_new, [Size 0]),
                  (DxRaw8toRGB24, [Ptr 100, Ptr 4096, U32 65536, U32 65536, U32 0, U32 0,
                                   Flag False])]\<rparr>)"
  by (simp add: raw8_to_rgb24_def new_array_def img_call_def throw_if_error_def
      invoke_DxRaw8toRGB24_def sim_dx_def sim_rt_def sim_eval)

subsection \<open>Class Library\<close>














lemma one_plus_word: "(x :: 32 word) + 1 = 1 \<longleftrightarrow> x = 0"
  by simp

lemma word_minus_one: "(x :: 32 word) - 1 = 0 \<longleftrightarrow> x = 1"
  by simp





































subsection \<open>Passing through to the vendor\<close>





lemma operations_Nil: "operations [] = []"
  by (simp add: operations_def)





lemma passes_throw: "passes (throw e) []"
  by (simp add: passes_def passes_at_def emitted_def throw_def operations_Nil)




























































end
